theory Spec2Isabelle
  imports Main
begin

section \<open>Data model\<close>

text \<open>
  The server keeps a content-addressed object area (directory \<open>files\<close>) and one
  \<open>branchHeads\<close> file per database (directory \<open>meta\<close>).  Go strings and byte slices
  are both sequences of 8-bit bytes, so both are \<^typ>\<open>string\<close> here.  The type
  \<open>'ts\<close> stands for Go's \<open>time.Time\<close>; the standard library's formatting of it is a
  parameter (see \<open>extern\<close> below).  The struct declarations are not among the
  sources; the fields are those the functions use.  The field \<open>ID\<close> of a tree is
  \<open>TreeID\<close> here, since a commit has a field \<open>ID\<close> too.
\<close>

record 'ts dbTreeEntry =
  AType :: string
  Last_Modified :: 'ts
  Name :: string
  Sha256 :: string
  Size :: int

record 'ts dbTree =
  Entries :: "'ts dbTreeEntry list"
  TreeID :: string

record 'ts commit =
  AuthorEmail :: string
  AuthorName :: string
  CommitterEmail :: string
  CommitterName :: string
  ID :: string
  Message :: string
  Parent :: string
  Timestamp :: 'ts
  Tree :: string

text \<open>The places the server writes to, below the storage directory.\<close>

datatype path = FilesPath string | MetaDir string | BranchHeadsPath string

datatype err = ReadError | UnmarshalError | MarshalError | MkdirError | WriteError

text \<open>
  What the code takes from outside the repository: the SHA-256 function, the two time
  formats, the JSON encoding of trees and commits (and its inverse for commits), the
  constant \<open>DATABASE\<close> of the missing type declarations, and which writes the
  operating system refuses.
\<close>

record 'ts extern =
  sha256_Sum256 :: "string \<Rightarrow> string"
  format_UnixDate :: "'ts \<Rightarrow> string"
  format_RFC3339 :: "'ts \<Rightarrow> string"
  marshal_tree :: "'ts dbTree \<Rightarrow> string option"
  marshal_commit :: "'ts commit \<Rightarrow> string option"
  unmarshal_commit :: "string \<Rightarrow> 'ts commit option"
  DATABASE :: string
  write_fails :: "path \<Rightarrow> bool"

section \<open>Identifiers\<close>

subsection \<open>Hexadecimal and decimal rendering\<close>

definition hexDigit :: "nat \<Rightarrow> char" where
  "hexDigit n = ''0123456789abcdef'' ! (n mod 16)"

text \<open>\<open>hex.EncodeToString\<close>: two lower-case digits per byte, high nibble first.\<close>

fun hexEncodeToString :: "string \<Rightarrow> string" where
  "hexEncodeToString [] = []"
| "hexEncodeToString (b # bs) =
     hexDigit (of_char b div 16) # hexDigit (of_char b mod 16) # hexEncodeToString bs"

definition decDigit :: "nat \<Rightarrow> char" where
  "decDigit n = ''0123456789'' ! (n mod 10)"

fun showNat :: "nat \<Rightarrow> string" where
  "showNat n = (if n < 10 then [decDigit n] else showNat (n div 10) @ [decDigit (n mod 10)])"

declare showNat.simps [simp del]

text \<open>\<open>fmt.Sprintf("%d", n)\<close> for a Go \<open>int\<close>.\<close>

definition sprintf_d :: "int \<Rightarrow> string" where
  "sprintf_d i = (if i < 0 then CHR ''-'' # showNat (nat (- i)) else showNat (nat i))"

subsection \<open>bytes.Buffer\<close>

definition WriteString :: "string \<Rightarrow> string \<Rightarrow> string" where
  "WriteString b s = b @ s"

definition WriteByte :: "string \<Rightarrow> char \<Rightarrow> string" where
  "WriteByte b c = b @ [c]"

abbreviation NUL :: char where
  "NUL \<equiv> CHR 0x00"

abbreviation LF :: char where
  "LF \<equiv> CHR 0x0A"

subsection \<open>createCommitID\<close>

text \<open>The buffer \<open>createCommitID\<close> fills before it hashes it.\<close>

definition commitBuffer :: "'ts extern \<Rightarrow> 'ts commit \<Rightarrow> string" where
  "commitBuffer x c =
    (let b = [];
         b = WriteString b (''tree '' @ Tree c @ [LF]);
         b = (if Parent c \<noteq> '''' then WriteString b (''parent '' @ Parent c @ [LF]) else b);
         b = WriteString b (''author '' @ AuthorName c @ '' <'' @ AuthorEmail c @ ''> ''
               @ format_UnixDate x (Timestamp c) @ [LF]);
         b = (if CommitterEmail c \<noteq> ''''
              then WriteString b (''committer '' @ CommitterName c @ '' <'' @ CommitterEmail c
                     @ ''> '' @ format_UnixDate x (Timestamp c) @ [LF])
              else b);
         b = WriteString b ([LF] @ Message c);
         b = WriteByte b NUL
     in b)"

definition createCommitID :: "'ts extern \<Rightarrow> 'ts commit \<Rightarrow> string" where
  "createCommitID x c = hexEncodeToString (sha256_Sum256 x (commitBuffer x c))"

subsection \<open>createDBTreeID\<close>

text \<open>One pass of the loop of \<open>createDBTreeID\<close> over entry \<open>j\<close>.\<close>

definition writeEntry :: "'ts extern \<Rightarrow> string \<Rightarrow> 'ts dbTreeEntry \<Rightarrow> string" where
  "writeEntry x b j =
    (let b = WriteString b (AType j);
         b = WriteByte b NUL;
         b = WriteString b (Sha256 j);
         b = WriteByte b NUL;
         b = WriteString b (Name j);
         b = WriteByte b NUL;
         b = WriteString b (format_RFC3339 x (Last_Modified j));
         b = WriteByte b NUL;
         b = WriteString b (sprintf_d (Size j) @ [LF])
     in b)"

definition treeBuffer :: "'ts extern \<Rightarrow> 'ts dbTreeEntry list \<Rightarrow> string" where
  "treeBuffer x entries = foldl (writeEntry x) [] entries"

definition createDBTreeID :: "'ts extern \<Rightarrow> 'ts dbTreeEntry list \<Rightarrow> string" where
  "createDBTreeID x entries = hexEncodeToString (sha256_Sum256 x (treeBuffer x entries))"

section \<open>Storage\<close>

text \<open>
  The content of a directory \<open>meta/<database>\<close>: without a \<open>branchHeads\<close> file,
  with one that holds the JSON of a branch table, or with one that \<open>json.Unmarshal\<close>
  rejects.  The handlers index the table by branch name and create it with
  \<open>make(map[string]string)\<close>, so a table is a map from branch names to commit
  identifiers; the JSON encoding of a table is not modelled, a stored table is read
  back as it was written.
\<close>

datatype metaEntry = NoBranchHeads | BranchHeads "string \<rightharpoonup> string" | Garbled

text \<open>
  \<open>files\<close> maps a file name under \<open>files/\<close> to its bytes, \<open>meta\<close> a directory name
  under \<open>meta/\<close> to its content.  \<open>written\<close> records the paths of the calls of
  \<open>ioutil.WriteFile\<close> that succeeded, oldest first; no function reads it.  A write that
  fails leaves its file as it was.  Names are opaque keys: \<open>filepath.Join\<close> is not
  modelled, so no name reaches outside its directory.
\<close>

record storage =
  files :: "string \<rightharpoonup> string"
  meta :: "string \<rightharpoonup> metaEntry"
  written :: "path list"

definition WriteFile :: "'ts extern \<Rightarrow> storage \<Rightarrow> string \<Rightarrow> string \<Rightarrow> err option \<times> storage" where
  "WriteFile x s name content =
    (if write_fails x (FilesPath name) then (Some WriteError, s)
     else (None, s\<lparr>files := (files s)(name \<mapsto> content),
                     written := written s @ [FilesPath name]\<rparr>))"

text \<open>\<open>dbExists\<close>: \<open>os.Stat\<close> of \<open>files/<dbName>\<close>; any failure counts as absence.\<close>

definition dbExists :: "storage \<Rightarrow> string \<Rightarrow> bool" where
  "dbExists s dbName = (case files s dbName of None \<Rightarrow> False | Some f \<Rightarrow> True)"

definition getBranches :: "storage \<Rightarrow> string \<Rightarrow> err + (string \<rightharpoonup> string)" where
  "getBranches s dbName =
    (case meta s dbName of
       None \<Rightarrow> Inl ReadError
     | Some NoBranchHeads \<Rightarrow> Inl ReadError
     | Some Garbled \<Rightarrow> Inl UnmarshalError
     | Some (BranchHeads i) \<Rightarrow> Inr i)"

text \<open>
  \<open>storeBranches\<close>: create the directory when \<open>os.Stat\<close> does not find it, then write
  the table.  (\<open>json.MarshalIndent\<close> of a map of strings does not fail.)
\<close>

definition storeBranches ::
  "'ts extern \<Rightarrow> storage \<Rightarrow> string \<Rightarrow> (string \<rightharpoonup> string) \<Rightarrow> err option \<times> storage" where
  "storeBranches x s dbName branches =
    (case (case meta s dbName of
             None \<Rightarrow> (if write_fails x (MetaDir dbName) then Inl MkdirError
                       else Inr (s\<lparr>meta := (meta s)(dbName \<mapsto> NoBranchHeads)\<rparr>))
           | Some d \<Rightarrow> Inr s) of
       Inl e \<Rightarrow> (Some e, s)
     | Inr s1 \<Rightarrow>
         if write_fails x (BranchHeadsPath dbName) then (Some WriteError, s1)
         else (None, s1\<lparr>meta := (meta s1)(dbName \<mapsto> BranchHeads branches),
                          written := written s1 @ [BranchHeadsPath dbName]\<rparr>))"

definition storeCommit :: "'ts extern \<Rightarrow> storage \<Rightarrow> 'ts commit \<Rightarrow> err option \<times> storage" where
  "storeCommit x s c =
    (case marshal_commit x c of
       None \<Rightarrow> (Some MarshalError, s)
     | Some j \<Rightarrow> WriteFile x s (ID c) j)"

definition storeDatabase :: "'ts extern \<Rightarrow> storage \<Rightarrow> string \<Rightarrow> err option \<times> storage" where
  "storeDatabase x s db =
    (let sha = hexEncodeToString (sha256_Sum256 x db) in
     case files s sha of
       None \<Rightarrow> WriteFile x s sha db
     | Some f \<Rightarrow>
         if int (length db) \<noteq> int (length f) then WriteFile x s sha db
         else (None, s))"

definition storeTree :: "'ts extern \<Rightarrow> storage \<Rightarrow> 'ts dbTree \<Rightarrow> err option \<times> storage" where
  "storeTree x s t =
    (case marshal_tree x t of
       None \<Rightarrow> (Some MarshalError, s)
     | Some j \<Rightarrow> WriteFile x s (TreeID t) j)"


section \<open>Requests and responses\<close>

datatype status = OK | Created | NoContent | BadRequest | NotFound | Conflict
  | InternalServerError

text \<open>
  A request carries its headers, its form values (\<open>None\<close> when \<open>ParseForm\<close> fails)
  and its body.  \<open>Header.Get\<close> and \<open>FormValue\<close> give the empty string for a missing key.
\<close>

record request =
  header :: "string \<rightharpoonup> string"
  form :: "(string \<rightharpoonup> string) option"
  body :: string

definition Get :: "(string \<rightharpoonup> string) \<Rightarrow> string \<Rightarrow> string" where
  "Get h k = (case h k of None \<Rightarrow> '''' | Some v \<Rightarrow> v)"

datatype 'ts response =
    Status status
  | Located status string
  | JsonHistory "'ts commit list"

section \<open>Handlers\<close>

subsection \<open>dbUpload\<close>

text \<open>
  The three values \<open>dbUpload\<close> builds from the request before it looks at the
  storage: the tree entry of the uploaded file, the tree of that one entry, and the
  commit that points to the tree (its \<open>Parent\<close> and \<open>ID\<close> not yet set).  The two
  calls of \<open>time.Now()\<close> are the arguments \<open>now1\<close> and \<open>now2\<close>.
\<close>

definition uploadEntry :: "'ts extern \<Rightarrow> string \<Rightarrow> string \<Rightarrow> 'ts \<Rightarrow> 'ts dbTreeEntry" where
  "uploadEntry x dbName buf now1 =
    \<lparr>AType = DATABASE x, Last_Modified = now1, Name = dbName,
     Sha256 = hexEncodeToString (sha256_Sum256 x buf), Size = int (length buf)\<rparr>"

definition uploadTree :: "'ts extern \<Rightarrow> 'ts dbTreeEntry \<Rightarrow> 'ts dbTree" where
  "uploadTree x e =
    (let entries = [] @ [e] in \<lparr>Entries = entries, TreeID = createDBTreeID x entries\<rparr>)"

definition uploadCommit :: "'ts dbTree \<Rightarrow> 'ts \<Rightarrow> 'ts commit" where
  "uploadCommit t now2 =
    \<lparr>AuthorEmail = ''justin@postgresql.org'', AuthorName = ''Justin Clift'',
     CommitterEmail = '''', CommitterName = '''', ID = '''', Message = '''', Parent = '''',
     Timestamp = now2, Tree = TreeID t\<rparr>"

text \<open>
  The middle of \<open>dbUpload\<close> ("Check if the database already exists"): the commit
  with its parent and identifier, and the branch table to store.
\<close>

definition resolveParent ::
  "'ts extern \<Rightarrow> storage \<Rightarrow> string \<Rightarrow> string \<Rightarrow> 'ts commit
    \<Rightarrow> err + ('ts commit \<times> (string \<rightharpoonup> string))" where
  "resolveParent x s dbName branchName c =
    (if dbExists s dbName then
       (case getBranches s dbName of
          Inl e \<Rightarrow> Inl e
        | Inr branches \<Rightarrow>
            let c = (case branches branchName of
                       Some cid \<Rightarrow> c\<lparr>Parent := cid\<rparr>
                     | None \<Rightarrow> c);
                c = c\<lparr>ID := createCommitID x c\<rparr>
            in Inr (c, branches(branchName \<mapsto> ID c)))
     else
       let c = c\<lparr>ID := createCommitID x c\<rparr>
       in Inr (c, [branchName \<mapsto> ID c]))"

text \<open>
  The end of \<open>dbUpload\<close>: the four writes, each answered with status 500 when it
  fails, and the response 201 with its \<open>Location\<close> header.
\<close>

definition storeUpload ::
  "'ts extern \<Rightarrow> storage \<Rightarrow> string \<Rightarrow> string \<Rightarrow> 'ts dbTree \<Rightarrow> 'ts commit
    \<Rightarrow> (string \<rightharpoonup> string) \<Rightarrow> 'ts response \<times> storage" where
  "storeUpload x s dbName buf t c branches =
    (case storeDatabase x s buf of
       (Some e, s1) \<Rightarrow> (Status InternalServerError, s1)
     | (None, s1) \<Rightarrow>
    (case storeTree x s1 t of
       (Some e, s2) \<Rightarrow> (Status InternalServerError, s2)
     | (None, s2) \<Rightarrow>
    (case storeCommit x s2 c of
       (Some e, s3) \<Rightarrow> (Status InternalServerError, s3)
     | (None, s3) \<Rightarrow>
    (case storeBranches x s3 dbName branches of
       (Some e, s4) \<Rightarrow> (Status InternalServerError, s4)
     | (None, s4) \<Rightarrow> (Located Created (''/'' @ dbName), s4)))))"

definition dbUpload ::
  "'ts extern \<Rightarrow> request \<Rightarrow> 'ts \<Rightarrow> 'ts \<Rightarrow> storage \<Rightarrow> 'ts response \<times> storage" where
  "dbUpload x r now1 now2 s =
    (let dbName = Get (header r) ''Name'';
         branchName = Get (header r) ''Branch''
     in
     if dbName = '''' \<or> branchName = '''' then (Status BadRequest, s)
     else
       let branchName = (if branchName = '''' then ''master'' else branchName);
           buf = body r;
           t = uploadTree x (uploadEntry x dbName buf now1);
           c = uploadCommit t now2
       in
       case resolveParent x s dbName branchName c of
         Inl e \<Rightarrow> (Status InternalServerError, s)
       | Inr (c, branches) \<Rightarrow> storeUpload x s dbName buf t c branches)"

subsection \<open>branchCreate\<close>


subsection \<open>branchHistory\<close>



section \<open>An environment for examples\<close>

text \<open>
  The theorems below hold for every environment.  Their instances are evaluated in this
  one: time counts seconds and is printed in decimal, the digest of a byte sequence is
  the sequence itself (so it has no collisions), the JSON of an object is a tagged copy
  of its identifier, no commit file decodes, and no write fails.
\<close>

definition demo :: "nat extern" where
  "demo =
    \<lparr>sha256_Sum256 = (\<lambda>b. b),
     format_UnixDate = showNat,
     format_RFC3339 = showNat,
     marshal_tree = (\<lambda>t. Some (''tree:'' @ TreeID t)),
     marshal_commit = (\<lambda>c. Some (''commit:'' @ ID c @ '' parent:'' @ Parent c)),
     unmarshal_commit = (\<lambda>b. None),
     DATABASE = ''db'',
     write_fails = (\<lambda>p. False)\<rparr>"

definition emptyStorage :: storage where
  "emptyStorage = \<lparr>files = Map.empty, meta = Map.empty, written = []\<rparr>"

section \<open>The specification's vocabulary\<close>

subsection \<open>Commit serialization\<close>

definition treeLine :: "'ts commit \<Rightarrow> string" where
  "treeLine c = ''tree '' @ Tree c @ [LF]"

definition parentLine :: "'ts commit \<Rightarrow> string" where
  "parentLine c = ''parent '' @ Parent c @ [LF]"

definition authorLine :: "'ts extern \<Rightarrow> 'ts commit \<Rightarrow> string" where
  "authorLine x c =
    ''author '' @ AuthorName c @ '' <'' @ AuthorEmail c @ ''> ''
      @ format_UnixDate x (Timestamp c) @ [LF]"

definition committerLine :: "'ts extern \<Rightarrow> 'ts commit \<Rightarrow> string" where
  "committerLine x c =
    ''committer '' @ CommitterName c @ '' <'' @ CommitterEmail c @ ''> ''
      @ format_UnixDate x (Timestamp c) @ [LF]"

text \<open>
  The canonical serialization in the specification's words: the committer line is
  there only if both committer fields are non-empty.
\<close>

definition canonicalSerialization :: "'ts extern \<Rightarrow> 'ts commit \<Rightarrow> string" where
  "canonicalSerialization x c =
    treeLine c
    @ (if Parent c \<noteq> '''' then parentLine c else [])
    @ authorLine x c
    @ (if CommitterName c \<noteq> '''' \<and> CommitterEmail c \<noteq> '''' then committerLine x c else [])
    @ [LF] @ Message c @ [NUL]"

text \<open>A commit whose committer has an email address and no name.\<close>

definition namelessCommitter :: "nat commit" where
  "namelessCommitter =
    \<lparr>AuthorEmail = ''a@example.org'', AuthorName = ''A'',
     CommitterEmail = ''c@example.org'', CommitterName = '''', ID = '''', Message = ''m'',
     Parent = '''', Timestamp = 7, Tree = ''t''\<rparr>"

subsection \<open>Tree serialization\<close>

text \<open>
  What the serialization shows of an entry: its fields, the time as \<open>createDBTreeID\<close>
  prints it.
\<close>

definition rendered ::
  "'ts extern \<Rightarrow> 'ts dbTreeEntry \<Rightarrow> string \<times> string \<times> string \<times> string \<times> int" where
  "rendered x j = (AType j, Sha256 j, Name j, format_RFC3339 x (Last_Modified j), Size j)"

definition nulFree :: "'ts extern \<Rightarrow> 'ts dbTreeEntry \<Rightarrow> bool" where
  "nulFree x j =
    (NUL \<notin> set (AType j) \<and> NUL \<notin> set (Sha256 j) \<and> NUL \<notin> set (Name j)
     \<and> NUL \<notin> set (format_RFC3339 x (Last_Modified j)))"

text \<open>Two entries that differ in where a NUL byte stands.\<close>

definition nulInName :: "nat dbTreeEntry" where
  "nulInName = \<lparr>AType = ''db'', Last_Modified = 5, Name = [NUL], Sha256 = '''', Size = 1\<rparr>"

definition nulInSha :: "nat dbTreeEntry" where
  "nulInSha = \<lparr>AType = ''db'', Last_Modified = 5, Name = '''', Sha256 = [NUL], Size = 1\<rparr>"

definition plainEntry :: "nat dbTreeEntry" where
  "plainEntry = \<lparr>AType = ''db'', Last_Modified = 5, Name = ''a.db'', Sha256 = ''61'', Size = 1\<rparr>"

subsection \<open>Uploads\<close>





definition uploadRequest :: "string \<Rightarrow> string \<Rightarrow> string \<Rightarrow> request" where
  "uploadRequest name branch content =
    \<lparr>header = [''Name'' \<mapsto> name, ''Branch'' \<mapsto> branch], form = None, body = content\<rparr>"



text \<open>A storage in which the file named by the digest of \<open>ab\<close> holds other bytes.\<close>

definition damaged :: storage where
  "damaged = \<lparr>files = [''6162'' \<mapsto> ''cd''], meta = Map.empty, written = []\<rparr>"

subsection \<open>Branches\<close>




subsection \<open>Histories\<close>






section \<open>Properties\<close>

lemmas render = hexDigit_def decDigit_def showNat.simps

subsection \<open>The commit identifier\<close>

text \<open>
  Claim C2, as the code has it.  The commit identifier is the hexadecimal SHA-256 digest
  of: the tree line, the parent line when the parent is not empty, the author line, the
  committer line when the committer's email is not empty (the committer's name is not
  looked at), an empty line, the message and a NUL byte.  Two commits that agree on
  every field but \<open>ID\<close> get the same identifier.
\<close>

theorem createCommitID_serialization:
  "createCommitID x c =
     hexEncodeToString (sha256_Sum256 x
       (treeLine c
        @ (if Parent c = '''' then [] else parentLine c)
        @ authorLine x c
        @ (if CommitterEmail c = '''' then [] else committerLine x c)
        @ [LF] @ Message c @ [NUL]))
   \<and> (Tree c' = Tree c \<and> Parent c' = Parent c \<and> AuthorName c' = AuthorName c
        \<and> AuthorEmail c' = AuthorEmail c \<and> CommitterName c' = CommitterName c
        \<and> CommitterEmail c' = CommitterEmail c \<and> Timestamp c' = Timestamp c
        \<and> Message c' = Message c
      \<longrightarrow> createCommitID x c' = createCommitID x c)"
  by (simp add: createCommitID_def commitBuffer_def WriteString_def WriteByte_def
      treeLine_def parentLine_def authorLine_def committerLine_def)

text \<open>
  An instance: the commit with a nameless committer, whose serialization is
  \<open>tree t\<close>, \<open>author A <a@example.org> 7\<close>, \<open>committer  <c@example.org> 7\<close>, an empty
  line, \<open>m\<close> and NUL; setting its \<open>ID\<close> does not change the identifier.
\<close>

theorem createCommitID_serialization_witness:
  "createCommitID demo namelessCommitter =
     ''7472656520740a617574686f722041203c61406578616d706c652e6f72673e20370a636f6d6d697474657220203c63406578616d706c652e6f72673e20370a0a6d00''
   \<and> createCommitID demo (namelessCommitter\<lparr>ID := ''0f''\<rparr>) = createCommitID demo namelessCommitter"
  using createCommitID_serialization [of demo namelessCommitter "namelessCommitter\<lparr>ID := ''0f''\<rparr>"]
  by (simp add: namelessCommitter_def demo_def treeLine_def authorLine_def committerLine_def render)

text \<open>
  Claim C2 as stated fails: for a committer with an email address and no name the code
  writes the committer line, the canonical serialization of the specification does not,
  and under a digest without collisions the two identifiers differ.
\<close>

theorem committer_line_counterexample:
  "commitBuffer demo namelessCommitter \<noteq> canonicalSerialization demo namelessCommitter
   \<and> createCommitID demo namelessCommitter
       \<noteq> hexEncodeToString (sha256_Sum256 demo (canonicalSerialization demo namelessCommitter))"
  by (simp add: createCommitID_def commitBuffer_def WriteString_def WriteByte_def
      canonicalSerialization_def treeLine_def authorLine_def committerLine_def
      namelessCommitter_def demo_def render)

subsection \<open>Separators and decimal numbers\<close>


lemma split_at_separator:
  "c \<notin> set a \<Longrightarrow> c \<notin> set a' \<Longrightarrow> a @ c # r = a' @ c # r' \<Longrightarrow> a = a' \<and> r = r'"
proof (induction a arbitrary: a')
  case Nil
  then show ?case by (cases a') auto
next
  case (Cons h t)
  then show ?case by (cases a') auto
qed

lemma decDigit_inj: "n < 10 \<Longrightarrow> m < 10 \<Longrightarrow> decDigit n = decDigit m \<Longrightarrow> n = m"
proof -
  assume n: "n < 10" and m: "m < 10" and e: "decDigit n = decDigit m"
  have "n \<in> {0,1,2,3,4,5,6,7,8,9}" using n by auto
  moreover have "m \<in> {0,1,2,3,4,5,6,7,8,9}" using m by auto
  ultimately show ?thesis using e by (auto simp: decDigit_def)
qed

lemma decDigit_range: "decDigit n \<in> set ''0123456789''"
proof -
  have "n mod 10 < length ''0123456789''" by simp
  then show ?thesis unfolding decDigit_def by (rule nth_mem)
qed

lemma showNat_nonempty: "showNat n \<noteq> []"
  by (subst showNat.simps) simp

lemma showNat_digits: "set (showNat n) \<subseteq> set ''0123456789''"
proof (induction n rule: showNat.induct)
  case (1 n)
  show ?case
  proof (cases "n < 10")
    case True
    then show ?thesis using decDigit_range [of n] by (subst showNat.simps) simp
  next
    case False
    then show ?thesis using 1 decDigit_range [of "n mod 10"] by (subst showNat.simps) simp
  qed
qed

lemma showNat_inj: "showNat n = showNat m \<Longrightarrow> n = m"
proof (induction n arbitrary: m rule: showNat.induct)
  case (1 n)
  show ?case
  proof (cases "n < 10")
    case n: True
    show ?thesis
    proof (cases "m < 10")
      case True
      with n 1(2) show ?thesis
        by (simp add: showNat.simps [of n] showNat.simps [of m] decDigit_inj)
    next
      case False
      with n 1(2) showNat_nonempty [of "m div 10"] show ?thesis
        by (simp add: showNat.simps [of n] showNat.simps [of m])
    qed
  next
    case n: False
    show ?thesis
    proof (cases "m < 10")
      case True
      with n 1(2) showNat_nonempty [of "n div 10"] show ?thesis
        by (simp add: showNat.simps [of n] showNat.simps [of m])
    next
      case False
      with n 1(2) have a: "showNat (n div 10) = showNat (m div 10)"
        and b: "decDigit (n mod 10) = decDigit (m mod 10)"
        by (simp_all add: showNat.simps [of n] showNat.simps [of m])
      from 1(1) [OF n a] have "n div 10 = m div 10" .
      moreover from b have "n mod 10 = m mod 10" by (simp add: decDigit_inj)
      ultimately show ?thesis by (metis div_mult_mod_eq)
    qed
  qed
qed

lemma sprintf_d_inj: "sprintf_d i = sprintf_d j \<Longrightarrow> i = j"
proof -
  assume e: "sprintf_d i = sprintf_d j"
  have neg: "CHR ''-'' # showNat a \<noteq> showNat b" for a b
  proof
    assume "CHR ''-'' # showNat a = showNat b"
    then have "CHR ''-'' \<in> set (showNat b)" by (metis list.set_intros(1))
    with showNat_digits [of b] show False by auto
  qed
  show ?thesis
  proof (cases "i < 0")
    case i: True
    show ?thesis
    proof (cases "j < 0")
      case True
      with i e have "showNat (nat (- i)) = showNat (nat (- j))" by (simp add: sprintf_d_def)
      then have "nat (- i) = nat (- j)" by (rule showNat_inj)
      with i True show ?thesis by simp
    next
      case False
      with i e neg show ?thesis by (simp add: sprintf_d_def)
    qed
  next
    case i: False
    show ?thesis
    proof (cases "j < 0")
      case True
      with i e neg [of "nat (- j)" "nat i"] show ?thesis by (simp add: sprintf_d_def)
    next
      case False
      with i e have "showNat (nat i) = showNat (nat j)" by (simp add: sprintf_d_def)
      then have "nat i = nat j" by (rule showNat_inj)
      with i False show ?thesis by simp
    qed
  qed
qed

lemma sprintf_d_no_LF: "LF \<notin> set (sprintf_d i)"
  using showNat_digits [of "nat i"] showNat_digits [of "nat (- i)"]
  by (auto simp: sprintf_d_def)

subsection \<open>The tree identifier\<close>


lemma writeEntry_append: "writeEntry x b j = b @ writeEntry x [] j"
  by (simp add: writeEntry_def WriteString_def WriteByte_def)

lemma foldl_writeEntry: "foldl (writeEntry x) b js = b @ foldl (writeEntry x) [] js"
proof (induction js arbitrary: b)
  case Nil
  show ?case by simp
next
  case (Cons j js)
  have "foldl (writeEntry x) b (j # js) = foldl (writeEntry x) (writeEntry x b j) js" by simp
  also have "\<dots> = writeEntry x b j @ foldl (writeEntry x) [] js" by (rule Cons.IH)
  also have "\<dots> = b @ writeEntry x [] j @ foldl (writeEntry x) [] js"
    by (subst writeEntry_append) simp
  also have "writeEntry x [] j @ foldl (writeEntry x) [] js = foldl (writeEntry x) [] (j # js)"
    using Cons.IH [of "writeEntry x [] j"] by simp
  finally show ?case .
qed

lemma treeBuffer_Nil: "treeBuffer x [] = []"
  by (simp add: treeBuffer_def)

lemma treeBuffer_Cons: "treeBuffer x (j # js) = writeEntry x [] j @ treeBuffer x js"
  unfolding treeBuffer_def using foldl_writeEntry [of x "writeEntry x [] j" js] by simp

lemma writeEntry_bytes:
  "writeEntry x [] j =
     AType j @ NUL # Sha256 j @ NUL # Name j @ NUL # format_RFC3339 x (Last_Modified j)
       @ NUL # sprintf_d (Size j) @ [LF]"
  by (simp add: writeEntry_def WriteString_def WriteByte_def)

lemma writeEntry_nonempty: "writeEntry x [] j \<noteq> []"
  by (simp add: writeEntry_bytes)

lemma entry_split:
  assumes nj: "nulFree x j" and nk: "nulFree x k"
    and eq: "writeEntry x [] j @ r = writeEntry x [] k @ r'"
  shows "rendered x j = rendered x k \<and> r = r'"
proof -
  from eq have e0:
    "AType j @ NUL # (Sha256 j @ NUL # Name j @ NUL # format_RFC3339 x (Last_Modified j)
        @ NUL # sprintf_d (Size j) @ LF # r)
     = AType k @ NUL # (Sha256 k @ NUL # Name k @ NUL # format_RFC3339 x (Last_Modified k)
        @ NUL # sprintf_d (Size k) @ LF # r')"
    by (simp add: writeEntry_bytes)
  from nj nk have a: "NUL \<notin> set (AType j)" "NUL \<notin> set (AType k)"
    and b: "NUL \<notin> set (Sha256 j)" "NUL \<notin> set (Sha256 k)"
    and c: "NUL \<notin> set (Name j)" "NUL \<notin> set (Name k)"
    and d: "NUL \<notin> set (format_RFC3339 x (Last_Modified j))"
           "NUL \<notin> set (format_RFC3339 x (Last_Modified k))"
    by (simp_all add: nulFree_def)
  from split_at_separator [OF a e0] have t: "AType j = AType k"
    and e1: "Sha256 j @ NUL # (Name j @ NUL # format_RFC3339 x (Last_Modified j)
        @ NUL # sprintf_d (Size j) @ LF # r)
     = Sha256 k @ NUL # (Name k @ NUL # format_RFC3339 x (Last_Modified k)
        @ NUL # sprintf_d (Size k) @ LF # r')"
    by simp_all
  from split_at_separator [OF b e1] have s: "Sha256 j = Sha256 k"
    and e2: "Name j @ NUL # (format_RFC3339 x (Last_Modified j)
        @ NUL # sprintf_d (Size j) @ LF # r)
     = Name k @ NUL # (format_RFC3339 x (Last_Modified k)
        @ NUL # sprintf_d (Size k) @ LF # r')"
    by simp_all
  from split_at_separator [OF c e2] have n: "Name j = Name k"
    and e3: "format_RFC3339 x (Last_Modified j) @ NUL # (sprintf_d (Size j) @ LF # r)
     = format_RFC3339 x (Last_Modified k) @ NUL # (sprintf_d (Size k) @ LF # r')"
    by simp_all
  from split_at_separator [OF d e3]
  have l: "format_RFC3339 x (Last_Modified j) = format_RFC3339 x (Last_Modified k)"
    and e4: "sprintf_d (Size j) @ LF # r = sprintf_d (Size k) @ LF # r'"
    by simp_all
  from split_at_separator [OF sprintf_d_no_LF sprintf_d_no_LF e4]
  have z: "sprintf_d (Size j) = sprintf_d (Size k)" and r: "r = r'" by simp_all
  from z have "Size j = Size k" by (rule sprintf_d_inj)
  with t s n l r show ?thesis by (simp add: rendered_def)
qed

lemma treeBuffer_inj:
  "\<forall>j \<in> set es. nulFree x j \<Longrightarrow> \<forall>j \<in> set fs. nulFree x j
    \<Longrightarrow> treeBuffer x es = treeBuffer x fs \<Longrightarrow> map (rendered x) es = map (rendered x) fs"
proof (induction es arbitrary: fs)
  case Nil
  then show ?case
    by (cases fs) (simp_all add: treeBuffer_Nil treeBuffer_Cons writeEntry_nonempty)
next
  case (Cons j js)
  show ?case
  proof (cases fs)
    case Nil
    with Cons.prems(3) show ?thesis
      by (simp add: treeBuffer_Nil treeBuffer_Cons writeEntry_nonempty)
  next
    case (Cons k ks)
    with Cons.prems have nj: "nulFree x j" and nk: "nulFree x k"
      and eq: "writeEntry x [] j @ treeBuffer x js = writeEntry x [] k @ treeBuffer x ks"
      by (simp_all add: treeBuffer_Cons)
    from entry_split [OF nj nk eq]
    have h: "rendered x j = rendered x k" and t: "treeBuffer x js = treeBuffer x ks" by simp_all
    from Cons.prems Cons have "\<forall>j \<in> set js. nulFree x j" "\<forall>j \<in> set ks. nulFree x j" by simp_all
    from Cons.IH [OF this t] h Cons show ?thesis by simp
  qed
qed

lemma treeBuffer_rendered:
  "map (rendered x) es = map (rendered x) fs \<Longrightarrow> treeBuffer x es = treeBuffer x fs"
proof (induction es arbitrary: fs)
  case Nil
  then show ?case by simp
next
  case (Cons j js)
  then obtain k ks where fs: "fs = k # ks" by (cases fs) auto
  with Cons.prems have h: "rendered x j = rendered x k"
    and t: "map (rendered x) js = map (rendered x) ks" by simp_all
  from h have "writeEntry x [] j = writeEntry x [] k"
    by (simp add: writeEntry_bytes rendered_def)
  with Cons.IH [OF t] fs show ?case by (simp add: treeBuffer_Cons)
qed

text \<open>
  Claim C7, as the code has it.  The tree identifier is the digest of an order-sensitive
  serialization.  Two entry sequences that agree, entry by entry, on type, digest, name,
  size and the RFC 3339 rendering of the modification time get the same identifier.
  Two entry sequences whose types, digests, names and rendered times contain no NUL
  byte have the same serialized bytes only if they agree in that way.
\<close>

theorem createDBTreeID_serialization:
  "(map (rendered x) es = map (rendered x) fs \<longrightarrow> createDBTreeID x es = createDBTreeID x fs)
   \<and> ((\<forall>j \<in> set es \<union> set fs. nulFree x j) \<and> treeBuffer x es = treeBuffer x fs
        \<longrightarrow> map (rendered x) es = map (rendered x) fs)"
  using treeBuffer_rendered [of x es fs] treeBuffer_inj [of es x fs]
  by (auto simp: createDBTreeID_def)

text \<open>
  An instance, with a clock that counts milliseconds and is printed in seconds: two
  entries that differ within a second have the same bytes and the same rendering.
\<close>

theorem createDBTreeID_serialization_witness:
  "nulFree (demo\<lparr>format_RFC3339 := \<lambda>t. showNat (t div 1000)\<rparr>) (plainEntry\<lparr>Last_Modified := 5000\<rparr>)
   \<and> nulFree (demo\<lparr>format_RFC3339 := \<lambda>t. showNat (t div 1000)\<rparr>) (plainEntry\<lparr>Last_Modified := 5999\<rparr>)
   \<and> treeBuffer (demo\<lparr>format_RFC3339 := \<lambda>t. showNat (t div 1000)\<rparr>) [plainEntry\<lparr>Last_Modified := 5000\<rparr>]
        = ''db'' @ [NUL] @ ''61'' @ [NUL] @ ''a.db'' @ [NUL] @ ''5'' @ [NUL] @ ''1'' @ [LF]
   \<and> treeBuffer (demo\<lparr>format_RFC3339 := \<lambda>t. showNat (t div 1000)\<rparr>) [plainEntry\<lparr>Last_Modified := 5999\<rparr>]
        = ''db'' @ [NUL] @ ''61'' @ [NUL] @ ''a.db'' @ [NUL] @ ''5'' @ [NUL] @ ''1'' @ [LF]
   \<and> map (rendered (demo\<lparr>format_RFC3339 := \<lambda>t. showNat (t div 1000)\<rparr>)) [plainEntry\<lparr>Last_Modified := 5000\<rparr>]
        = map (rendered (demo\<lparr>format_RFC3339 := \<lambda>t. showNat (t div 1000)\<rparr>)) [plainEntry\<lparr>Last_Modified := 5999\<rparr>]
   \<and> createDBTreeID (demo\<lparr>format_RFC3339 := \<lambda>t. showNat (t div 1000)\<rparr>) [plainEntry\<lparr>Last_Modified := 5000\<rparr>]
        = createDBTreeID (demo\<lparr>format_RFC3339 := \<lambda>t. showNat (t div 1000)\<rparr>) [plainEntry\<lparr>Last_Modified := 5999\<rparr>]"
  using createDBTreeID_serialization
    [of "demo\<lparr>format_RFC3339 := \<lambda>t. showNat (t div 1000)\<rparr>"
        "[plainEntry\<lparr>Last_Modified := 5000\<rparr>]" "[plainEntry\<lparr>Last_Modified := 5999\<rparr>]"]
  by (simp add: plainEntry_def nulFree_def rendered_def demo_def treeBuffer_def
      writeEntry_def WriteString_def WriteByte_def sprintf_d_def render)

text \<open>
  Claim C7 as stated fails: a NUL byte in the name of one entry and in the digest of
  another gives two different entry sequences with the same serialized bytes, and so
  with the same identifier.
\<close>

theorem nul_in_field_counterexample:
  "[nulInName] \<noteq> [nulInSha] \<and> treeBuffer demo [nulInName] = treeBuffer demo [nulInSha]
   \<and> createDBTreeID demo [nulInName] = createDBTreeID demo [nulInSha]"
  by (simp add: nulInName_def nulInSha_def createDBTreeID_def treeBuffer_def writeEntry_def
      WriteString_def WriteByte_def)

subsection \<open>Storing an uploaded file\<close>

text \<open>
  Claim C3, where the code departs from it.  When a file named by the digest of the
  uploaded bytes is there with the same size, \<open>storeDatabase\<close> writes nothing and
  reports success, whatever that file holds.
\<close>

theorem storeDatabase_compares_sizes_only:
  "files s (hexEncodeToString (sha256_Sum256 x db)) = Some f \<Longrightarrow> length f = length db
    \<Longrightarrow> storeDatabase x s db = (None, s)"
  by (simp add: storeDatabase_def)

text \<open>
  An instance: the file named by the digest of \<open>ab\<close> holds \<open>cd\<close>; storing \<open>ab\<close>
  succeeds and leaves \<open>cd\<close> there.
\<close>

theorem storeDatabase_compares_sizes_only_witness:
  "files damaged (hexEncodeToString (sha256_Sum256 demo ''ab'')) = Some ''cd''
   \<and> length ''cd'' = length ''ab''
   \<and> storeDatabase demo damaged ''ab'' = (None, damaged)
   \<and> files (snd (storeDatabase demo damaged ''ab'')) (hexEncodeToString (sha256_Sum256 demo ''ab''))
        \<noteq> Some ''ab''"
proof -
  have f: "files damaged (hexEncodeToString (sha256_Sum256 demo ''ab'')) = Some ''cd''"
    by (simp add: damaged_def demo_def render)
  have l: "length ''cd'' = length ''ab''" by simp
  from storeDatabase_compares_sizes_only [OF f l] f show ?thesis by simp
qed

subsection \<open>Creating a branch\<close>



subsection \<open>The four writes of an upload\<close>











subsection \<open>Uploads\<close>

lemma dbUpload_checked:
  assumes "Get (header r) ''Name'' \<noteq> ''''" and "Get (header r) ''Branch'' \<noteq> ''''"
  shows "dbUpload x r now1 now2 s =
    (case resolveParent x s (Get (header r) ''Name'') (Get (header r) ''Branch'')
            (uploadCommit (uploadTree x (uploadEntry x (Get (header r) ''Name'') (body r) now1)) now2) of
       Inl e \<Rightarrow> (Status InternalServerError, s)
     | Inr (c, branches) \<Rightarrow>
         storeUpload x s (Get (header r) ''Name'') (body r)
           (uploadTree x (uploadEntry x (Get (header r) ''Name'') (body r) now1)) c branches)"
  using assms by (simp add: dbUpload_def Let_def)





lemmas run = dbUpload_def resolveParent_def storeUpload_def uploadRequest_def Get_def
  emptyStorage_def dbExists_def demo_def storeDatabase_def storeTree_def storeCommit_def
  storeBranches_def WriteFile_def Let_def getBranches_def uploadEntry_def uploadTree_def
  uploadCommit_def createCommitID_def createDBTreeID_def commitBuffer_def treeBuffer_def
  writeEntry_def WriteString_def WriteByte_def sprintf_d_def


subsection \<open>A second upload\<close>




text \<open>
  On the path that \<open>dbExists\<close> opens, the head of the branch becomes the parent of
  the new commit.
\<close>

lemma resolveParent_existing_branch:
  "dbExists s db \<Longrightarrow> getBranches s db = Inr branches \<Longrightarrow> branches b = Some head \<Longrightarrow>
     resolveParent x s db b c
       = Inr (c\<lparr>Parent := head, ID := createCommitID x (c\<lparr>Parent := head\<rparr>)\<rparr>,
              branches(b \<mapsto> createCommitID x (c\<lparr>Parent := head\<rparr>)))"
  by (simp add: resolveParent_def Let_def)



subsection \<open>The order of the writes\<close>



lemma storeUpload_response:
  "storeUpload x s db buf t c branches = (resp, s') \<Longrightarrow>
     resp = Status InternalServerError \<or> resp = Located Created (''/'' @ db)"
  by (auto simp: storeUpload_def split: prod.splits option.splits)



subsection \<open>The input check of an upload\<close>

text \<open>
  Claim C8, as the code has it.  An upload without a database name is answered with
  400 and changes nothing.  An upload with a database name and a branch name is never
  answered with 400, and the handler does not look at a \<open>Message\<close> header: setting or
  removing it changes neither the answer nor the storage.
\<close>

theorem dbUpload_input_check:
  "(Get (header r) ''Name'' = '''' \<longrightarrow> dbUpload x r now1 now2 s = (Status BadRequest, s))
   \<and> (Get (header r) ''Name'' \<noteq> '''' \<and> Get (header r) ''Branch'' \<noteq> ''''
        \<longrightarrow> fst (dbUpload x r now1 now2 s) \<noteq> Status BadRequest)
   \<and> dbUpload x (r\<lparr>header := (header r)(''Message'' := m)\<rparr>) now1 now2 s
        = dbUpload x r now1 now2 s"
proof (intro conjI impI)
  assume "Get (header r) ''Name'' = ''''"
  then show "dbUpload x r now1 now2 s = (Status BadRequest, s)"
    by (simp add: dbUpload_def Let_def)
next
  assume ne: "Get (header r) ''Name'' \<noteq> '''' \<and> Get (header r) ''Branch'' \<noteq> ''''"
  let ?db = "Get (header r) ''Name''"
  let ?t = "uploadTree x (uploadEntry x ?db (body r) now1)"
  show "fst (dbUpload x r now1 now2 s) \<noteq> Status BadRequest"
  proof (cases "resolveParent x s ?db (Get (header r) ''Branch'') (uploadCommit ?t now2)")
    case (Inl e)
    with ne show ?thesis by (simp add: dbUpload_checked)
  next
    case (Inr p)
    obtain c branches where p: "p = (c, branches)" by (cases p)
    obtain resp s' where su: "storeUpload x s ?db (body r) ?t c branches = (resp, s')"
      by (cases "storeUpload x s ?db (body r) ?t c branches")
    from storeUpload_response [OF su] have "resp \<noteq> Status BadRequest" by auto
    with ne Inr p su show ?thesis by (simp add: dbUpload_checked)
  qed
next
  have "Get ((header r)(''Message'' := m)) ''Name'' = Get (header r) ''Name''"
    and "Get ((header r)(''Message'' := m)) ''Branch'' = Get (header r) ''Branch''"
    by (simp_all add: Get_def)
  then show "dbUpload x (r\<lparr>header := (header r)(''Message'' := m)\<rparr>) now1 now2 s
        = dbUpload x r now1 now2 s"
    by (simp add: dbUpload_def Let_def)
qed

text \<open>
  An instance: without a name the answer is 400; with name and branch and without a
  message it is not, and it is the same as with the message \<open>init\<close>.
\<close>

theorem dbUpload_input_check_witness:
  "Get (header (uploadRequest '''' ''master'' ''x'')) ''Name'' = ''''
   \<and> dbUpload demo (uploadRequest '''' ''master'' ''x'') 1 2 emptyStorage
       = (Status BadRequest, emptyStorage)
   \<and> Get (header (uploadRequest ''a.db'' ''master'' ''x'')) ''Name'' \<noteq> ''''
   \<and> Get (header (uploadRequest ''a.db'' ''master'' ''x'')) ''Branch'' \<noteq> ''''
   \<and> fst (dbUpload demo (uploadRequest ''a.db'' ''master'' ''x'') 1 2 emptyStorage)
       \<noteq> Status BadRequest
   \<and> dbUpload demo
        ((uploadRequest ''a.db'' ''master'' ''x'')
           \<lparr>header := (header (uploadRequest ''a.db'' ''master'' ''x''))(''Message'' \<mapsto> ''init'')\<rparr>)
        1 2 emptyStorage
       = dbUpload demo (uploadRequest ''a.db'' ''master'' ''x'') 1 2 emptyStorage"
proof -
  have a: "Get (header (uploadRequest '''' ''master'' ''x'')) ''Name'' = ''''"
    and b: "Get (header (uploadRequest ''a.db'' ''master'' ''x'')) ''Name'' \<noteq> ''''"
    and c: "Get (header (uploadRequest ''a.db'' ''master'' ''x'')) ''Branch'' \<noteq> ''''"
    by (simp_all add: uploadRequest_def Get_def)
  from dbUpload_input_check [of "uploadRequest '''' ''master'' ''x''" demo 1 2 emptyStorage] a
  have 1: "dbUpload demo (uploadRequest '''' ''master'' ''x'') 1 2 emptyStorage
       = (Status BadRequest, emptyStorage)" by blast
  from dbUpload_input_check
    [of "uploadRequest ''a.db'' ''master'' ''x''" demo 1 2 emptyStorage "Some ''init''"] b c
  have 2: "fst (dbUpload demo (uploadRequest ''a.db'' ''master'' ''x'') 1 2 emptyStorage)
       \<noteq> Status BadRequest"
    and 3: "dbUpload demo
        ((uploadRequest ''a.db'' ''master'' ''x'')
           \<lparr>header := (header (uploadRequest ''a.db'' ''master'' ''x''))(''Message'' \<mapsto> ''init'')\<rparr>)
        1 2 emptyStorage
       = dbUpload demo (uploadRequest ''a.db'' ''master'' ''x'') 1 2 emptyStorage"
    by blast+
  from a b c 1 2 3 show ?thesis by blast
qed

text \<open>
  Claim C8 as stated fails: an upload with a database name and a branch and without a
  commit message is answered with 201, not with 400.
\<close>

theorem upload_without_message_counterexample:
  "Get (header (uploadRequest ''a.db'' ''master'' ''x'')) ''Message'' = ''''
   \<and> fst (dbUpload demo (uploadRequest ''a.db'' ''master'' ''x'') 1 2 emptyStorage)
       = Located Created ''/a.db''"
  by (simp add: run render)

subsection \<open>The history of a branch\<close>







end
